theory Spec2Isabelle
  imports Main
begin

section \<open>Values shared by the components\<close>

text \<open>
  Strings of the program are modelled as HOL strings: one \<^typ>\<open>char\<close> per code unit,
  restricted to the code units below 256. Thrown values are data: every \<open>throw\<close> of the
  source is a branch returning \<open>Inl\<close>.
\<close>

datatype exn =
  Error string string   \<comment> \<open>an \<open>Error\<close> object: its name and its message\<close>
  | Thrown string       \<comment> \<open>a thrown value that is not an \<open>Error\<close> instance\<close>

abbreviation TypeError :: "string \<Rightarrow> exn" where
  "TypeError m \<equiv> Error ''TypeError'' m"

text \<open>
  What \<open>JSON.parse\<close> returns: a value of any shape. An object holds one pair per key.
  Numbers are the integers that print in decimal notation; the code only tests a number
  for being zero and prints it when it is used as a key.
\<close>

datatype json =
  JNull
  | JBool bool
  | JNum int
  | JStr string
  | JArr "json list"
  | JObj "(string \<times> json) list"

text \<open>
  The tests the code makes on such values; \<open>None\<close> is \<open>undefined\<close>. First truthiness.
\<close>

fun truthy :: "json option \<Rightarrow> bool" where
  "truthy None = False"
| "truthy (Some JNull) = False"
| "truthy (Some (JBool b)) = b"
| "truthy (Some (JNum n)) = (n \<noteq> 0)"
| "truthy (Some (JStr s)) = (s \<noteq> [])"
| "truthy (Some (JArr xs)) = True"
| "truthy (Some (JObj kvs)) = True"

text \<open>
  \<open>v.k\<close> for a value that is not \<open>null\<close>, at the property names the code reads
  (none of them is inherited by an object, an array or a primitive).
\<close>

fun property :: "json \<Rightarrow> string \<Rightarrow> json option" where
  "property (JObj kvs) k = map_of kvs k"
| "property v k = None"

text \<open>Decimal digits of a natural number, as \<open>String(n)\<close> prints an integer.\<close>

function show_nat :: "nat \<Rightarrow> string" where
  "show_nat n =
     (if n < 10 then [char_of (48 + n)]
      else show_nat (n div 10) @ [char_of (48 + n mod 10)])"
  by pat_completeness auto
termination
  by (relation "measure id") auto

declare show_nat.simps [simp del]

section \<open>Upload validation (validation.ts)\<close>

record File =
  file_name :: string
  file_type :: string
  file_size :: nat

record ValidationError =
  field :: string
  message :: string

definition OCTET_STREAM_ALLOWED_EXTENSIONS :: "string list" where
  "OCTET_STREAM_ALLOWED_EXTENSIONS = [''md'', ''markdown'', ''txt'']"

definition MAX_OCTET_STREAM_SIZE :: nat where
  "MAX_OCTET_STREAM_SIZE = 2 * 1024 * 1024"

text \<open>The table \<open>ALLOWED_MIME_TYPES\<close>: MIME type, extension, maximum size in bytes.\<close>

definition ALLOWED_MIME_TYPES :: "(string \<times> (string \<times> nat)) list" where
  "ALLOWED_MIME_TYPES =
     [(''image/png'', (''png'', 5 * 1024 * 1024)),
      (''image/jpeg'', (''jpg'', 5 * 1024 * 1024)),
      (''image/jpg'', (''jpg'', 5 * 1024 * 1024)),
      (''application/pdf'', (''pdf'', 10 * 1024 * 1024)),
      (''text/markdown'', (''md'', 2 * 1024 * 1024)),
      (''text/plain'', (''txt'', 2 * 1024 * 1024))]"

text \<open>
  The source tests \<open>file.type in ALLOWED_MIME_TYPES\<close>. The \<open>in\<close> operator also finds the
  properties an object literal inherits; for those the destructured \<open>maxSize\<close> is
  \<open>undefined\<close> and the comparison \<open>file.size > undefined\<close> is false.
\<close>

definition inherited_properties :: "string list" where
  "inherited_properties =
     [''constructor'', ''hasOwnProperty'', ''isPrototypeOf'', ''propertyIsEnumerable'',
      ''toLocaleString'', ''toString'', ''valueOf'', ''__proto__'',
      ''__defineGetter__'', ''__defineSetter__'', ''__lookupGetter__'', ''__lookupSetter__'']"

text \<open>\<open>s.toLowerCase()\<close> on code units below 256.\<close>

definition lower_char :: "char \<Rightarrow> char" where
  "lower_char c =
     (let n = (of_char c :: nat) in
      if (65 \<le> n \<and> n \<le> 90) \<or> (192 \<le> n \<and> n \<le> 222 \<and> n \<noteq> 215)
      then char_of (n + 32) else c)"

definition toLowerCase :: "string \<Rightarrow> string" where
  "toLowerCase s = map lower_char s"

text \<open>\<open>s.split(".").pop()\<close>: what follows the last dot, the whole string when there is none.\<close>

definition split_pop :: "string \<Rightarrow> string" where
  "split_pop s = rev (takeWhile (\<lambda>c. c \<noteq> CHR ''.'') (rev s))"

text \<open>\<open>xs.join(", ")\<close>\<close>

fun join :: "string \<Rightarrow> string list \<Rightarrow> string" where
  "join sep [] = []"
| "join sep [x] = x"
| "join sep (x # y # ys) = x @ sep @ join sep (y # ys)"

definition validateFile :: "File \<Rightarrow> ValidationError option" where
  "validateFile file =
     (if file_type file = ''application/octet-stream'' then
        (let extension = toLowerCase (split_pop (file_name file)) in
         if extension \<notin> set OCTET_STREAM_ALLOWED_EXTENSIONS then
           Some \<lparr>field = ''type'',
                 message = ''Files with type application/octet-stream must have extension: ''
                   @ join '', '' OCTET_STREAM_ALLOWED_EXTENSIONS @ ''. Got: .'' @ extension\<rparr>
         else if file_size file > MAX_OCTET_STREAM_SIZE then
           Some \<lparr>field = ''size'',
                 message = ''File size exceeds maximum allowed size of ''
                   @ show_nat (MAX_OCTET_STREAM_SIZE div (1024 * 1024)) @ ''MB for text files''\<rparr>
         else None)
      else
        (case map_of ALLOWED_MIME_TYPES (file_type file) of
           None \<Rightarrow>
             if file_type file \<in> set inherited_properties then None
             else
               Some \<lparr>field = ''type'',
                     message = ''File type '' @ file_type file @ '' is not allowed. Allowed types: ''
                       @ join '', '' (map fst ALLOWED_MIME_TYPES)\<rparr>
         | Some (ext, maxSize) \<Rightarrow>
             if file_size file > maxSize then
               Some \<lparr>field = ''size'',
                     message = ''File size exceeds maximum allowed size of ''
                       @ show_nat (maxSize div (1024 * 1024)) @ ''MB''\<rparr>
             else None))"

text \<open>The placeholder of the source: every buffer is accepted.\<close>

definition isValidTextContent :: "nat list \<Rightarrow> bool" where
  "isValidTextContent buffer = True"

section \<open>Upload endpoint (api/upload/route.ts)\<close>

datatype response =
  ErrorResponse string string nat
    \<comment> \<open>\<open>NextResponse.json({error, field}, {status})\<close>\<close>
  | SuccessResponse string string string string nat
    \<comment> \<open>\<open>NextResponse.json({success: true, url, key, name, type, size})\<close>\<close>

text \<open>
  What the handler reads from outside: the parsed form (\<open>request.formData()\<close> may throw,
  the \<open>file\<close> field may be missing), the bytes of the file, the generated UUID and the
  two storage calls of upload.ts, which talk to the object store.
\<close>

record upload_env =
  formData_file :: "exn + File option"
  arrayBuffer :: "exn + nat list"
  randomUUID :: string
  uploadFile :: "nat list \<Rightarrow> string \<Rightarrow> string \<Rightarrow> string \<Rightarrow> exn + string"
  uploadLargeFile :: "nat list \<Rightarrow> string \<Rightarrow> string \<Rightarrow> string \<Rightarrow> exn + string"

text \<open>The body of the \<open>try\<close> block: \<open>Inl\<close> is a throw that reaches the \<open>catch\<close>.\<close>

definition POST_try :: "upload_env \<Rightarrow> exn + response" where
  "POST_try env =
     (case formData_file env of
        Inl e \<Rightarrow> Inl e
      | Inr None \<Rightarrow> Inr (ErrorResponse ''No file provided'' ''file'' 400)
      | Inr (Some file) \<Rightarrow>
          (case validateFile file of
             Some validationError \<Rightarrow>
               Inr (ErrorResponse (message validationError) (field validationError) 400)
           | None \<Rightarrow>
               (case arrayBuffer env of
                  Inl e \<Rightarrow> Inl e
                | Inr buffer \<Rightarrow>
                    if file_type file = ''application/octet-stream''
                       \<and> toLowerCase (split_pop (file_name file)) \<in> set [''md'', ''markdown'', ''txt'']
                       \<and> \<not> isValidTextContent buffer
                    then Inr (ErrorResponse ''File appears to be binary, not text'' ''content'' 400)
                    else
                      (let extension =
                             (if split_pop (file_name file) = [] then ''bin''
                              else split_pop (file_name file));
                           key = randomUUID env @ ''.'' @ extension
                       in case (if file_size file > 5 * 1024 * 1024
                                then uploadLargeFile env buffer key (file_type file) (file_name file)
                                else uploadFile env buffer key (file_type file) (file_name file)) of
                            Inl e \<Rightarrow> Inl e
                          | Inr url \<Rightarrow>
                              Inr (SuccessResponse url key (file_name file) (file_type file)
                                     (file_size file))))))"

definition POST :: "upload_env \<Rightarrow> response" where
  "POST env =
     (case POST_try env of
        Inr r \<Rightarrow> r
      | Inl (Error n m) \<Rightarrow> ErrorResponse m ''server'' 500
      | Inl (Thrown v) \<Rightarrow> ErrorResponse ''Upload failed'' ''server'' 500)"

section \<open>Memory hydration (agent/memory.ts)\<close>

record ToolCall =
  tc_name :: string
  tc_args :: json
  tc_id :: "string option"

text \<open>Message content of the client: a plain string, or a structured value.\<close>

datatype content = ContentString string | ContentStructured json

datatype message_type = human | ai | tool | error

record MessageData =
  data_id :: string
  data_content :: content
  tool_calls :: "ToolCall list option"
  additional_kwargs :: "json option"
  response_metadata :: "json option"

record MessageResponse =
  msg_type :: message_type
  msg_data :: MessageData

text \<open>
  The three message classes of the agent framework, with the fields the code sets. The
  constructors of the framework fill what they are not given: a missing (falsy)
  \<open>additional_kwargs\<close> or \<open>response_metadata\<close> becomes the empty object, and a missing
  \<open>tool_calls\<close> is filled by the framework itself.
\<close>

datatype tool_calls_field =
  ToolCalls "ToolCall list"   \<comment> \<open>the list handed to the constructor\<close>
  | FrameworkDefault          \<comment> \<open>no list was handed over: what the framework fills in\<close>

record HumanMessageFields =
  hm_content :: string
  hm_id :: "string option"

record AIMessageFields =
  am_content :: string
  am_id :: "string option"
  am_tool_calls :: tool_calls_field
  am_additional_kwargs :: json
  am_response_metadata :: json

record ToolMessageFields =
  tm_content :: string
  tm_tool_call_id :: string

datatype BaseMessage =
  HumanMessage HumanMessageFields
  | AIMessage AIMessageFields
  | ToolMessage ToolMessageFields

text \<open>\<open>if (!fields.additional_kwargs) fields.additional_kwargs = {}\<close>, in the constructor.\<close>

definition default_object :: "json option \<Rightarrow> json" where
  "default_object v = (if truthy v then the v else JObj [])"

text \<open>\<open>JSON.stringify\<close> is a parameter of the model.\<close>

definition normalizeContent :: "(json \<Rightarrow> string) \<Rightarrow> content \<Rightarrow> string" where
  "normalizeContent JSON_stringify c =
     (case c of ContentString s \<Rightarrow> s | ContentStructured v \<Rightarrow> JSON_stringify v)"

definition messageResponseToBaseMessage ::
  "(json \<Rightarrow> string) \<Rightarrow> MessageResponse \<Rightarrow> BaseMessage" where
  "messageResponseToBaseMessage JSON_stringify msg =
     (if msg_type msg = human then
        HumanMessage \<lparr>hm_content = normalizeContent JSON_stringify (data_content (msg_data msg)),
                      hm_id = Some (data_id (msg_data msg))\<rparr>
      else if msg_type msg = ai then
        AIMessage \<lparr>am_content = normalizeContent JSON_stringify (data_content (msg_data msg)),
                   am_id = Some (data_id (msg_data msg)),
                   am_tool_calls =
                     (case tool_calls (msg_data msg) of
                        Some calls \<Rightarrow> ToolCalls calls
                      | None \<Rightarrow> FrameworkDefault),
                   am_additional_kwargs = default_object (additional_kwargs (msg_data msg)),
                   am_response_metadata = default_object (response_metadata (msg_data msg))\<rparr>
      else if msg_type msg = tool then
        ToolMessage \<lparr>tm_content = normalizeContent JSON_stringify (data_content (msg_data msg)),
                     tm_tool_call_id = data_id (msg_data msg)\<rparr>
      else
        HumanMessage \<lparr>hm_content = normalizeContent JSON_stringify (data_content (msg_data msg)),
                      hm_id = Some (data_id (msg_data msg))\<rparr>)"

text \<open>
  What the conversion takes from outside: \<open>JSON.stringify\<close>, and what the framework's
  constructors make of a value that is not of the declared type (they may throw).
\<close>

record framework =
  fw_stringify :: "json \<Rightarrow> string"
  fw_construct :: "json \<Rightarrow> exn + BaseMessage"

text \<open>
  The history arrives as parsed JSON, so an element need not be of the declared type:
  \<open>Raw v\<close> is any other value. On \<open>null\<close> the read of \<open>msg.type\<close> throws; on a value
  whose \<open>data\<close> is \<open>undefined\<close> or \<open>null\<close> the read of \<open>msg.data.content\<close> throws, in every
  branch; on any other value the code reads the fields without throwing and hands them to
  a constructor of the framework.
\<close>

datatype history_item = Item MessageResponse | Raw json

fun convert_item :: "framework \<Rightarrow> history_item \<Rightarrow> exn + BaseMessage" where
  "convert_item fw (Item msg) = Inr (messageResponseToBaseMessage (fw_stringify fw) msg)"
| "convert_item fw (Raw v) =
     (if v = JNull then Inl (TypeError ''Cannot read properties of null'')
      else if property v ''data'' = None \<or> property v ''data'' = Some JNull
      then Inl (TypeError ''Cannot read properties of undefined'')
      else fw_construct fw v)"

text \<open>The elements on which the conversion throws whatever the framework does.\<close>

fun unreadable :: "history_item \<Rightarrow> bool" where
  "unreadable (Item msg) = False"
| "unreadable (Raw v) =
     (v = JNull \<or> property v ''data'' = None \<or> property v ''data'' = Some JNull)"

text \<open>\<open>xs.map(f)\<close> where \<open>f\<close> may throw: the first throw ends the traversal.\<close>

fun array_map :: "('a \<Rightarrow> exn + 'b) \<Rightarrow> 'a list \<Rightarrow> exn + 'b list" where
  "array_map f [] = Inr []"
| "array_map f (x # xs) =
     (case f x of
        Inl e \<Rightarrow> Inl e
      | Inr y \<Rightarrow> (case array_map f xs of Inl e \<Rightarrow> Inl e | Inr ys \<Rightarrow> Inr (y # ys)))"

record Checkpoint =
  cp_v :: nat
  cp_id :: string
  cp_ts :: string
  channel_values_messages :: "BaseMessage list"
  channel_versions_messages :: nat
  versions_seen :: "(string \<times> nat) list"

text \<open>
  The checkpoint store of the agent framework, over any state \<open>'s\<close>: \<open>put\<close> may throw
  (the second component) after changing the store, \<open>get\<close> may throw or find nothing.
\<close>

record 's MemorySaver =
  put :: "'s \<Rightarrow> string \<Rightarrow> Checkpoint \<Rightarrow> 's \<times> exn option"
  get :: "'s \<Rightarrow> string \<Rightarrow> exn + Checkpoint option"

record clock =
  Date_now :: nat
  toISOString :: string

datatype console_line = Log string | Err string

record 's hydrate_outcome =
  saver_after :: 's
  put_calls :: "(string \<times> Checkpoint) list"
  console :: "console_line list"
  settled :: "exn + unit"   \<comment> \<open>the promise: \<open>Inr ()\<close> resolved, \<open>Inl e\<close> rejected\<close>

text \<open>
  The \<open>try\<close> block: the store, the \<open>put\<close> calls made, the lines logged, and the throw if
  any. Every \<open>put\<close> carries the same constant metadata, which is left out.
\<close>

definition hydrate_try ::
  "'s MemorySaver \<Rightarrow> framework \<Rightarrow> clock \<Rightarrow> 's \<Rightarrow> string \<Rightarrow> history_item list
     \<Rightarrow> ('s \<times> (string \<times> Checkpoint) list \<times> console_line list) \<times> exn option" where
  "hydrate_try saver fw clk s threadId history =
     (case array_map (convert_item fw) history of
        Inl e \<Rightarrow> ((s, [], []), Some e)
      | Inr messages \<Rightarrow>
          (let checkpoint =
                 \<lparr>cp_v = 1,
                  cp_id = ''hydrated-'' @ show_nat (Date_now clk),
                  cp_ts = toISOString clk,
                  channel_values_messages = messages,
                  channel_versions_messages = length messages,
                  versions_seen = []\<rparr>
           in case put saver s threadId checkpoint of
                (s', Some e) \<Rightarrow> ((s', [(threadId, checkpoint)], []), Some e)
              | (s', None) \<Rightarrow>
                  ((s', [(threadId, checkpoint)],
                    [Log (''Hydrated '' @ show_nat (length messages) @ '' messages for thread ''
                            @ threadId)]),
                   None)))"

definition hydrateMemoryFromHistory ::
  "'s MemorySaver \<Rightarrow> framework \<Rightarrow> clock \<Rightarrow> 's \<Rightarrow> string \<Rightarrow> history_item list option
     \<Rightarrow> 's hydrate_outcome" where
  "hydrateMemoryFromHistory saver fw clk s threadId history =
     (case history of
        None \<Rightarrow> \<lparr>saver_after = s, put_calls = [], console = [], settled = Inr ()\<rparr>
      | Some h \<Rightarrow>
          if length h = 0 then
            \<lparr>saver_after = s, put_calls = [], console = [], settled = Inr ()\<rparr>
          else
            (case hydrate_try saver fw clk s threadId h of
               ((s', calls, lines), None) \<Rightarrow>
                 \<lparr>saver_after = s', put_calls = calls, console = lines, settled = Inr ()\<rparr>
             | ((s', calls, lines), Some e) \<Rightarrow>
                 \<lparr>saver_after = s', put_calls = calls,
                  console = lines @ [Err ''Failed to hydrate memory:''],
                  settled = Inr ()\<rparr>))"

definition getHistory :: "'s MemorySaver \<Rightarrow> 's \<Rightarrow> string \<Rightarrow> BaseMessage list" where
  "getHistory saver s threadId =
     (case get saver s threadId of
        Inl e \<Rightarrow> []
      | Inr None \<Rightarrow> []
      | Inr (Some checkpoint) \<Rightarrow> channel_values_messages checkpoint)"

text \<open>
  The checkpoint \<open>hydrateMemoryFromHistory\<close> builds from the converted messages, and the
  one it builds for a history of messages of the declared type.
\<close>

definition new_checkpoint :: "clock \<Rightarrow> BaseMessage list \<Rightarrow> Checkpoint" where
  "new_checkpoint clk messages =
     \<lparr>cp_v = 1, cp_id = ''hydrated-'' @ show_nat (Date_now clk),
      cp_ts = toISOString clk,
      channel_values_messages = messages,
      channel_versions_messages = length messages,
      versions_seen = []\<rparr>"

definition hydrated_checkpoint :: "framework \<Rightarrow> clock \<Rightarrow> MessageResponse list \<Rightarrow> Checkpoint" where
  "hydrated_checkpoint fw clk msgs =
     new_checkpoint clk (map (messageResponseToBaseMessage (fw_stringify fw)) msgs)"

text \<open>
  An in-memory store for the examples: one checkpoint per thread id, the last one written;
  \<open>createMemorySaver\<close> is the empty store. A second store refuses every write.
\<close>

definition memory_saver :: "(string \<Rightarrow> Checkpoint option) MemorySaver" where
  "memory_saver =
     \<lparr>put = (\<lambda>s threadId checkpoint. (s(threadId := Some checkpoint), None)),
      get = (\<lambda>s threadId. Inr (s threadId))\<rparr>"

definition createMemorySaver :: "string \<Rightarrow> Checkpoint option" where
  "createMemorySaver = (\<lambda>threadId. None)"


text \<open>The class of a framework message, and its text.\<close>

fun role :: "BaseMessage \<Rightarrow> message_type" where
  "role (HumanMessage f) = human"
| "role (AIMessage f) = ai"
| "role (ToolMessage f) = tool"

fun text_content :: "BaseMessage \<Rightarrow> string" where
  "text_content (HumanMessage f) = hm_content f"
| "text_content (AIMessage f) = am_content f"
| "text_content (ToolMessage f) = tm_content f"

section \<open>Streaming service (services/agentService.ts)\<close>

text \<open>\<open>MessageOptions.allowTool\<close> is the union of the literals \<open>"allow"\<close> and \<open>"deny"\<close>.\<close>

datatype AllowTool = allow | deny

record MessageOptions =
  opt_model :: "string option"
  opt_tools :: "string list option"
  allowTool :: "AllowTool option"
  approveAllTools :: "bool option"

record resume =
  action :: string
  resume_data :: json

datatype turn_input =
  Command resume                      \<comment> \<open>\<open>new Command({resume: {action, data}})\<close>\<close>
  | StateInput "BaseMessage list"     \<comment> \<open>\<open>{messages: [...]}\<close>\<close>

text \<open>The constant \<open>inputs\<close> of \<open>streamResponse\<close>; \<open>opts\<close> itself is optional.\<close>

definition streamResponse_inputs :: "MessageOptions option \<Rightarrow> string \<Rightarrow> turn_input" where
  "streamResponse_inputs opts userText =
     (case (case opts of None \<Rightarrow> None | Some opt \<Rightarrow> allowTool opt) of
        Some decision \<Rightarrow>
          Command \<lparr>action = (if decision = allow then ''continue'' else ''update''),
                   resume_data = JObj []\<rparr>
      | None \<Rightarrow> StateInput [HumanMessage \<lparr>hm_content = userText, hm_id = None\<rparr>])"

text \<open>
  The message \<open>processAIMessage\<close> receives is a record of unknown values. Its content is a
  string, an array of blocks, \<open>undefined\<close>/\<open>null\<close>, or something else, kept as what
  \<open>String(content)\<close> prints. A block is a string, \<open>null\<close>, or an object, of which the code
  reads the \<open>text\<close> property and whether a \<open>functionCall\<close> property exists.
\<close>

datatype content_block =
  BlockString string
  | BlockObject "string option" bool
  | BlockNull

datatype chunk_content =
  Plain string
  | Blocks "content_block list"
  | Nullish
  | OtherValue string

record AIMessageChunk =
  chunk_id :: "string option"
  chunk_content :: chunk_content
  chunk_tool_calls :: "ToolCall list option"
  chunk_additional_kwargs :: "json option"
  chunk_response_metadata :: "json option"

fun is_functionCall :: "content_block \<Rightarrow> bool" where
  "is_functionCall (BlockObject t has_functionCall) = has_functionCall"
| "is_functionCall (BlockString s) = False"
| "is_functionCall BlockNull = False"

definition hasToolCall :: "AIMessageChunk \<Rightarrow> bool" where
  "hasToolCall m =
     (case chunk_content m of Blocks items \<Rightarrow> list_ex is_functionCall items | _ \<Rightarrow> False)"

text \<open>\<open>typeof c === "string" ? c : c?.text || ""\<close>\<close>

fun block_text :: "content_block \<Rightarrow> string" where
  "block_text (BlockString s) = s"
| "block_text (BlockObject (Some t) f) = t"
| "block_text (BlockObject None f) = []"
| "block_text BlockNull = []"

definition extract_text :: "AIMessageChunk \<Rightarrow> string" where
  "extract_text m =
     (case chunk_content m of
        Plain s \<Rightarrow> s
      | Blocks items \<Rightarrow> concat (map block_text items)
      | Nullish \<Rightarrow> []
      | OtherValue printed \<Rightarrow> printed)"

text \<open>White space and line terminators of the language, among the code units below 256.\<close>

definition is_whitespace :: "char \<Rightarrow> bool" where
  "is_whitespace c = ((of_char c :: nat) \<in> {9, 10, 11, 12, 13, 32, 160})"

definition trim :: "string \<Rightarrow> string" where
  "trim s = rev (dropWhile is_whitespace (rev (dropWhile is_whitespace s)))"

text \<open>\<open>(message.id as string) || Date.now().toString()\<close>\<close>

definition id_or_now :: "nat \<Rightarrow> string option \<Rightarrow> string" where
  "id_or_now now i = (case i of None \<Rightarrow> show_nat now | Some v \<Rightarrow> if v = [] then show_nat now else v)"

definition processAIMessage :: "nat \<Rightarrow> AIMessageChunk \<Rightarrow> MessageResponse option" where
  "processAIMessage now m =
     (if hasToolCall m then
        Some \<lparr>msg_type = ai,
              msg_data =
                \<lparr>data_id = id_or_now now (chunk_id m),
                 data_content =
                   ContentString (case chunk_content m of Plain s \<Rightarrow> s | _ \<Rightarrow> []),
                 tool_calls = chunk_tool_calls m,
                 additional_kwargs = chunk_additional_kwargs m,
                 response_metadata = chunk_response_metadata m\<rparr>\<rparr>
      else
        (let text = extract_text m in
         if trim text \<noteq> [] then
           Some \<lparr>msg_type = ai,
                 msg_data =
                   \<lparr>data_id = id_or_now now (chunk_id m),
                    data_content = ContentString text,
                    tool_calls = None,
                    additional_kwargs = None,
                    response_metadata = None\<rparr>\<rparr>
         else None))"

subsection \<open>The approval gate\<close>

text \<open>The nodes of the agent graph and what the gate adds to the message state.\<close>

datatype node = agent | tool_approval | tools | END

datatype gate_update =
  Unmodified
  | ModifiedToolCall json
  | DenialToolResult json

text \<open>
  Modelled from the spec: the resumption of the \<open>tool_approval\<close> node, which the agent
  graph builder (agent/builder.ts) defines and the sources do not contain. The spec gives
  three actions: \<open>continue\<close> proceeds to \<open>tools\<close> unmodified, \<open>update\<close> proceeds to \<open>tools\<close>
  with a modified tool-call payload, \<open>feedback\<close> skips execution, records a tool-result
  message expressing denial and loops back to \<open>agent\<close>. The result is the node the graph
  goes to and what it adds to the message state; no other action is described.
\<close>

definition tool_approval_resume :: "resume \<Rightarrow> (node \<times> gate_update) option" where
  "tool_approval_resume r =
     (if action r = ''continue'' then Some (tools, Unmodified)
      else if action r = ''update'' then Some (tools, ModifiedToolCall (resume_data r))
      else if action r = ''feedback'' then Some (agent, DenialToolResult (resume_data r))
      else None)"

text \<open>The gate applied to the input \<open>streamResponse\<close> hands to the graph.\<close>

definition resume_turn :: "MessageOptions option \<Rightarrow> string \<Rightarrow> (node \<times> gate_update) option" where
  "resume_turn opts userText =
     (case streamResponse_inputs opts userText of
        Command r \<Rightarrow> tool_approval_resume r
      | StateInput messages \<Rightarrow> None)"

section \<open>Tool registry loader (agent/mcp.ts)\<close>

text \<open>
  The configuration is whatever \<open>JSON.parse\<close> returns, so the code's tests on it are
  modelled on JSON values.
\<close>

fun isArray :: "json option \<Rightarrow> bool" where
  "isArray (Some (JArr xs)) = True"
| "isArray v = False"

fun elements :: "json option \<Rightarrow> json list" where
  "elements (Some (JArr xs)) = xs"
| "elements v = []"

text \<open>\<open>typeof v === "object" && v !== null\<close>\<close>

fun is_object :: "json option \<Rightarrow> bool" where
  "is_object (Some (JArr xs)) = True"
| "is_object (Some (JObj kvs)) = True"
| "is_object v = False"

text \<open>\<open>args.filter((arg) => typeof arg === "string")\<close>\<close>

fun strings_of :: "json list \<Rightarrow> string list" where
  "strings_of [] = []"
| "strings_of (JStr s # xs) = s # strings_of xs"
| "strings_of (x # xs) = strings_of xs"

definition show_int :: "int \<Rightarrow> string" where
  "show_int n = (if n < 0 then ''-'' @ show_nat (nat (- n)) else show_nat (nat n))"

text \<open>The string a value becomes when it is used as a property key.\<close>

fun js_string :: "json \<Rightarrow> string" where
  "js_string JNull = ''null''"
| "js_string (JBool b) = (if b then ''true'' else ''false'')"
| "js_string (JNum n) = show_int n"
| "js_string (JStr s) = s"
| "js_string (JArr xs) = join '','' (map (\<lambda>x. if x = JNull then [] else js_string x) xs)"
| "js_string (JObj kvs) = ''[object Object]''"

definition property_key :: "json option \<Rightarrow> string" where
  "property_key v = (case v of None \<Rightarrow> ''undefined'' | Some x \<Rightarrow> js_string x)"

record StdioMCPServerConfig =
  stdio_command :: json
  stdio_args :: "string list option"
  stdio_env :: "json option"

record HttpMCPServerConfig =
  http_url :: json
  http_headers :: "json option"

datatype MCPServerConfig =
  Stdio StdioMCPServerConfig   \<comment> \<open>\<open>transport: "stdio"\<close>\<close>
  | Http HttpMCPServerConfig   \<comment> \<open>\<open>transport: "http"\<close>\<close>

text \<open>
  \<open>configs[key] = config\<close> on an object literal: the own properties in insertion order.
  The key \<open>__proto__\<close> sets the prototype and adds no own property.
\<close>

fun set_property :: "string \<Rightarrow> 'v \<Rightarrow> (string \<times> 'v) list \<Rightarrow> (string \<times> 'v) list" where
  "set_property k v [] = [(k, v)]"
| "set_property k v ((k', v') # kvs) =
     (if k' = k then (k, v) # kvs else (k', v') # set_property k v kvs)"

definition assign :: "string \<Rightarrow> 'v \<Rightarrow> (string \<times> 'v) list \<Rightarrow> (string \<times> 'v) list" where
  "assign k v configs = (if k = ''__proto__'' then configs else set_property k v configs)"

text \<open>One iteration of \<open>for (const server of config.servers)\<close>.\<close>

definition server_step ::
  "json \<Rightarrow> (string \<times> MCPServerConfig) list \<Rightarrow> exn + (string \<times> MCPServerConfig) list" where
  "server_step server configs =
     (if server = JNull then Inl (TypeError ''Cannot read properties of null'')
      else if \<not> truthy (property server ''enabled'') then Inr configs
      else if property server ''type'' = Some (JStr ''stdio'') \<and> truthy (property server ''command'')
      then
        Inr (assign (property_key (property server ''name''))
               (Stdio \<lparr>stdio_command = the (property server ''command''),
                       stdio_args =
                         (if truthy (property server ''args'') \<and> isArray (property server ''args'')
                          then Some (strings_of (elements (property server ''args''))) else None),
                       stdio_env =
                         (if truthy (property server ''env'') \<and> is_object (property server ''env'')
                          then property server ''env'' else None)\<rparr>)
               configs)
      else if property server ''type'' = Some (JStr ''http'') \<and> truthy (property server ''url'')
      then
        Inr (assign (property_key (property server ''name''))
               (Http \<lparr>http_url = the (property server ''url''),
                      http_headers =
                        (if truthy (property server ''headers'')
                            \<and> is_object (property server ''headers'')
                         then property server ''headers'' else None)\<rparr>)
               configs)
      else Inr configs)"

fun for_servers ::
  "json list \<Rightarrow> (string \<times> MCPServerConfig) list \<Rightarrow> exn + (string \<times> MCPServerConfig) list" where
  "for_servers [] configs = Inr configs"
| "for_servers (server # rest) configs =
     (case server_step server configs of
        Inl e \<Rightarrow> Inl e
      | Inr configs' \<Rightarrow> for_servers rest configs')"

text \<open>The file system as the loader sees it; \<open>JSON.parse\<close> is a parameter.\<close>

record config_file =
  existsSync :: bool
  readFileSync :: "exn + string"

definition getMCPServerConfigs_try ::
  "config_file \<Rightarrow> (string \<Rightarrow> exn + json) \<Rightarrow> exn + (string \<times> MCPServerConfig) list" where
  "getMCPServerConfigs_try fs JSON_parse =
     (if \<not> existsSync fs then Inr []
      else
        (case readFileSync fs of
           Inl e \<Rightarrow> Inl e
         | Inr fileContent \<Rightarrow>
             (case JSON_parse fileContent of
                Inl e \<Rightarrow> Inl e
              | Inr config \<Rightarrow>
                  if config = JNull then Inl (TypeError ''Cannot read properties of null'')
                  else if \<not> truthy (property config ''servers'')
                          \<or> \<not> isArray (property config ''servers'')
                  then Inr []
                  else for_servers (elements (property config ''servers'')) [])))"

definition getMCPServerConfigs ::
  "config_file \<Rightarrow> (string \<Rightarrow> exn + json) \<Rightarrow> (string \<times> MCPServerConfig) list" where
  "getMCPServerConfigs fs JSON_parse =
     (case getMCPServerConfigs_try fs JSON_parse of Inl e \<Rightarrow> [] | Inr configs \<Rightarrow> configs)"

text \<open>The client library: constructing a client and asking it for its tools may throw.\<close>

record ('c, 't) mcp_client_library =
  new_MultiServerMCPClient :: "(string \<times> MCPServerConfig) list \<Rightarrow> exn + 'c"
  getTools :: "'c \<Rightarrow> exn + 't list"

definition createMCPClient ::
  "('c, 't) mcp_client_library \<Rightarrow> config_file \<Rightarrow> (string \<Rightarrow> exn + json) \<Rightarrow> 'c option" where
  "createMCPClient lib fs JSON_parse =
     (let mcpServers = getMCPServerConfigs fs JSON_parse in
      if length mcpServers = 0 then None
      else (case new_MultiServerMCPClient lib mcpServers of
              Inl e \<Rightarrow> None
            | Inr client \<Rightarrow> Some client))"

definition getMCPTools ::
  "('c, 't) mcp_client_library \<Rightarrow> config_file \<Rightarrow> (string \<Rightarrow> exn + json) \<Rightarrow> 't list" where
  "getMCPTools lib fs JSON_parse =
     (case createMCPClient lib fs JSON_parse of
        None \<Rightarrow> []
      | Some client \<Rightarrow>
          (case getTools lib client of Inl e \<Rightarrow> [] | Inr found \<Rightarrow> found))"

section \<open>Local persistence store (storage/localStorage.ts)\<close>

definition THREADS_KEY :: string where
  "THREADS_KEY = ''stackpath_threads''"

definition MESSAGES_KEY_PREFIX :: string where
  "MESSAGES_KEY_PREFIX = ''stackpath_messages_''"

text \<open>
  The browser: whether \<open>window\<close> is defined, and the store, whose access may throw.
\<close>

record browser =
  window_defined :: bool
  localStorage :: "exn + (string \<Rightarrow> string option)"

text \<open>\<open>const data = localStorage.getItem(key); return data ? JSON.parse(data) : []\<close>\<close>

definition read_record :: "browser \<Rightarrow> (string \<Rightarrow> exn + json) \<Rightarrow> string \<Rightarrow> exn + json" where
  "read_record b JSON_parse key =
     (case localStorage b of
        Inl e \<Rightarrow> Inl e
      | Inr getItem \<Rightarrow>
          (case getItem key of
             None \<Rightarrow> Inr (JArr [])
           | Some data \<Rightarrow> if data = [] then Inr (JArr []) else JSON_parse data))"

definition getThreads :: "browser \<Rightarrow> (string \<Rightarrow> exn + json) \<Rightarrow> json" where
  "getThreads b JSON_parse =
     (if \<not> window_defined b then JArr []
      else (case read_record b JSON_parse THREADS_KEY of Inl e \<Rightarrow> JArr [] | Inr v \<Rightarrow> v))"

definition getMessages :: "browser \<Rightarrow> (string \<Rightarrow> exn + json) \<Rightarrow> string \<Rightarrow> json" where
  "getMessages b JSON_parse threadId =
     (if \<not> window_defined b then JArr []
      else (case read_record b JSON_parse (MESSAGES_KEY_PREFIX @ threadId) of
              Inl e \<Rightarrow> JArr []
            | Inr v \<Rightarrow> v))"

section \<open>Example values\<close>

text \<open>A conversation with one tool call, and a clock.\<close>

definition example_history :: "MessageResponse list" where
  "example_history =
     [\<lparr>msg_type = human, msg_data = \<lparr>data_id = ''1'', data_content = ContentString ''weather?'',
         tool_calls = None, additional_kwargs = None, response_metadata = None\<rparr>\<rparr>,
      \<lparr>msg_type = ai, msg_data = \<lparr>data_id = ''2'', data_content = ContentString [],
         tool_calls = Some [\<lparr>tc_name = ''get_weather'', tc_args = JObj [(''city'', JStr ''Paris'')],
                             tc_id = Some ''call_1''\<rparr>],
         additional_kwargs = Some (JObj [(''k'', JNum 1)]),
         response_metadata = Some (JObj [(''finish_reason'', JStr ''tool_calls'')])\<rparr>\<rparr>,
      \<lparr>msg_type = tool, msg_data = \<lparr>data_id = ''call_1'', data_content = ContentString ''sunny'',
         tool_calls = None, additional_kwargs = None, response_metadata = None\<rparr>\<rparr>]"

definition example_clock :: clock where
  "example_clock = \<lparr>Date_now = 1700000000000, toISOString = ''2023-11-14T22:13:20.000Z''\<rparr>"

text \<open>
  A framework for the examples, an assistant message with a tool call and no metadata, and
  three values that are not of the declared type: \<open>null\<close>, an object without \<open>data\<close>, and
  an object whose \<open>data\<close> is empty.
\<close>

definition example_framework :: framework where
  "example_framework =
     \<lparr>fw_stringify = (\<lambda>v. []),
      fw_construct = (\<lambda>v. Inr (HumanMessage \<lparr>hm_content = [], hm_id = None\<rparr>))\<rparr>"




text \<open>Two streamed messages: a blank one, and one made of text blocks.\<close>

definition example_blank_chunk :: AIMessageChunk where
  "example_blank_chunk =
     \<lparr>chunk_id = Some ''run-1'', chunk_content = Plain '' '', chunk_tool_calls = None,
      chunk_additional_kwargs = None, chunk_response_metadata = None\<rparr>"

definition example_blocks_chunk :: AIMessageChunk where
  "example_blocks_chunk =
     \<lparr>chunk_id = Some ''run-2'',
      chunk_content = Blocks [BlockObject (Some ''Hello'') False, BlockString '', '',
                              BlockObject (Some ''world'') False, BlockNull],
      chunk_tool_calls = None, chunk_additional_kwargs = None, chunk_response_metadata = None\<rparr>"

text \<open>
  A configuration with one enabled and one disabled server, a parser that knows three
  file contents, a client library that lists the configured names, and a browser whose
  store holds one corrupt record.
\<close>

definition example_config :: json where
  "example_config =
     JObj [(''servers'',
            JArr [JObj [(''name'', JStr ''context7''), (''enabled'', JBool True),
                        (''type'', JStr ''http''), (''url'', JStr ''https://mcp.context7.ai''),
                        (''headers'', JObj [])],
                  JObj [(''name'', JStr ''web_fetch''), (''enabled'', JBool False),
                        (''type'', JStr ''stdio''), (''command'', JStr ''npx''),
                        (''args'', JArr [JStr ''@modelcontextprotocol/server-fetch'']),
                        (''env'', JObj [])]])]"

definition example_parse :: "string \<Rightarrow> exn + json" where
  "example_parse s =
     (if s = ''CONFIG'' then Inr example_config
      else if s = ''{}'' then Inr (JObj [])
      else Inl (Error ''SyntaxError'' ''Unexpected token''))"

definition example_library :: "((string \<times> MCPServerConfig) list, string) mcp_client_library" where
  "example_library =
     \<lparr>new_MultiServerMCPClient = (\<lambda>servers. Inr servers),
      getTools = (\<lambda>client. Inr (map fst client))\<rparr>"

definition example_browser :: browser where
  "example_browser =
     \<lparr>window_defined = True,
      localStorage = Inr (\<lambda>key. if key = ''stackpath_messages_T2'' then Some ''[{broken'' else None)\<rparr>"

section \<open>Properties of the upload validation\<close>

lemma show_nat_2: "show_nat 2 = ''2''" by code_simp
lemma show_nat_5: "show_nat 5 = ''5''" by code_simp
lemma show_nat_10: "show_nat 10 = ''10''" by code_simp

lemma validateFile_image:
  assumes "t \<in> {''image/png'', ''image/jpeg'', ''image/jpg''}"
  shows "validateFile \<lparr>file_name = n, file_type = t, file_size = 5 * 1024 * 1024\<rparr> = None"
    and "validateFile \<lparr>file_name = n, file_type = t, file_size = 5 * 1024 * 1024 + 1\<rparr> =
           Some \<lparr>field = ''size'', message = ''File size exceeds maximum allowed size of 5MB''\<rparr>"
  using assms by (auto simp: validateFile_def ALLOWED_MIME_TYPES_def show_nat_5)

lemma validateFile_pdf:
  shows "validateFile \<lparr>file_name = n, file_type = ''application/pdf'', file_size = 10 * 1024 * 1024\<rparr> = None"
    and "validateFile \<lparr>file_name = n, file_type = ''application/pdf'', file_size = 10 * 1024 * 1024 + 1\<rparr> =
           Some \<lparr>field = ''size'', message = ''File size exceeds maximum allowed size of 10MB''\<rparr>"
  by (auto simp: validateFile_def ALLOWED_MIME_TYPES_def show_nat_10)

lemma validateFile_text:
  assumes "t \<in> {''text/markdown'', ''text/plain''}"
  shows "validateFile \<lparr>file_name = n, file_type = t, file_size = 2 * 1024 * 1024\<rparr> = None"
    and "validateFile \<lparr>file_name = n, file_type = t, file_size = 2 * 1024 * 1024 + 1\<rparr> =
           Some \<lparr>field = ''size'', message = ''File size exceeds maximum allowed size of 2MB''\<rparr>"
  using assms by (auto simp: validateFile_def ALLOWED_MIME_TYPES_def show_nat_2)

lemma validateFile_octet:
  assumes "toLowerCase (split_pop n) \<in> {''md'', ''markdown'', ''txt''}"
  shows "s \<le> 2 * 1024 * 1024 \<Longrightarrow> validateFile \<lparr>file_name = n, file_type = ''application/octet-stream'', file_size = s\<rparr> = None"
    and "s > 2 * 1024 * 1024 \<Longrightarrow> validateFile \<lparr>file_name = n, file_type = ''application/octet-stream'', file_size = s\<rparr> =
           Some \<lparr>field = ''size'', message = ''File size exceeds maximum allowed size of 2MB for text files''\<rparr>"
  using assms by (auto simp: validateFile_def OCTET_STREAM_ALLOWED_EXTENSIONS_def MAX_OCTET_STREAM_SIZE_def show_nat_2)

lemma notes_txt_extension: "toLowerCase (split_pop ''notes.txt'') = ''txt''" by code_simp
lemma README_MD_extension: "toLowerCase (split_pop ''README.MD'') = ''md''" by code_simp

text \<open>
  Claim C7. A file whose size is exactly the maximum of its type is accepted
  (\<open>validateFile\<close> returns \<open>null\<close>): 5MB for image/png, image/jpeg and image/jpg, 10MB for
  application/pdf, 2MB for text/markdown and text/plain, and 2MB for an
  application/octet-stream file whose extension is md, markdown or txt. One byte more is
  rejected with an error whose field is \<open>size\<close>. An application/octet-stream file named
  notes.txt passes at 1MB and is rejected with a size error at 3MB.
\<close>

theorem validateFile_size_boundary:
  "(t \<in> {''image/png'', ''image/jpeg'', ''image/jpg''} \<longrightarrow>
      validateFile \<lparr>file_name = n, file_type = t, file_size = 5 * 1024 * 1024\<rparr> = None \<and>
      validateFile \<lparr>file_name = n, file_type = t, file_size = 5 * 1024 * 1024 + 1\<rparr> =
        Some \<lparr>field = ''size'', message = ''File size exceeds maximum allowed size of 5MB''\<rparr>)
   \<and> validateFile \<lparr>file_name = n, file_type = ''application/pdf'', file_size = 10 * 1024 * 1024\<rparr> = None
   \<and> validateFile \<lparr>file_name = n, file_type = ''application/pdf'', file_size = 10 * 1024 * 1024 + 1\<rparr> =
        Some \<lparr>field = ''size'', message = ''File size exceeds maximum allowed size of 10MB''\<rparr>
   \<and> (t \<in> {''text/markdown'', ''text/plain''} \<longrightarrow>
      validateFile \<lparr>file_name = n, file_type = t, file_size = 2 * 1024 * 1024\<rparr> = None \<and>
      validateFile \<lparr>file_name = n, file_type = t, file_size = 2 * 1024 * 1024 + 1\<rparr> =
        Some \<lparr>field = ''size'', message = ''File size exceeds maximum allowed size of 2MB''\<rparr>)
   \<and> (toLowerCase (split_pop n) \<in> {''md'', ''markdown'', ''txt''} \<longrightarrow>
      validateFile \<lparr>file_name = n, file_type = ''application/octet-stream'',
                    file_size = 2 * 1024 * 1024\<rparr> = None \<and>
      validateFile \<lparr>file_name = n, file_type = ''application/octet-stream'',
                    file_size = 2 * 1024 * 1024 + 1\<rparr> =
        Some \<lparr>field = ''size'',
              message = ''File size exceeds maximum allowed size of 2MB for text files''\<rparr>)
   \<and> validateFile \<lparr>file_name = ''notes.txt'', file_type = ''application/octet-stream'',
                    file_size = 1024 * 1024\<rparr> = None
   \<and> validateFile \<lparr>file_name = ''notes.txt'', file_type = ''application/octet-stream'',
                    file_size = 3 * 1024 * 1024\<rparr> =
        Some \<lparr>field = ''size'',
              message = ''File size exceeds maximum allowed size of 2MB for text files''\<rparr>"
proof -
  have ext: "toLowerCase (split_pop ''notes.txt'') \<in> {''md'', ''markdown'', ''txt''}"
    by (simp add: notes_txt_extension)
  have small: "validateFile \<lparr>file_name = ''notes.txt'', file_type = ''application/octet-stream'',
                    file_size = 1024 * 1024\<rparr> = None"
    by (rule validateFile_octet(1) [OF ext]) simp
  have large: "validateFile \<lparr>file_name = ''notes.txt'', file_type = ''application/octet-stream'',
                    file_size = 3 * 1024 * 1024\<rparr> =
        Some \<lparr>field = ''size'',
              message = ''File size exceeds maximum allowed size of 2MB for text files''\<rparr>"
    by (rule validateFile_octet(2) [OF ext]) simp
  show ?thesis
    using validateFile_image [of t n] validateFile_pdf [of n] validateFile_text [of t n]
      validateFile_octet [of n "2 * 1024 * 1024"] validateFile_octet [of n "2 * 1024 * 1024 + 1"]
      small large
    by simp
qed

text \<open>The boundary at a PNG image, a plain text file and an octet-stream file README.MD.\<close>

theorem validateFile_size_boundary_witness:
  "validateFile \<lparr>file_name = ''README.MD'', file_type = ''image/png'', file_size = 5 * 1024 * 1024\<rparr> = None
   \<and> validateFile \<lparr>file_name = ''README.MD'', file_type = ''image/png'', file_size = 5 * 1024 * 1024 + 1\<rparr> =
        Some \<lparr>field = ''size'', message = ''File size exceeds maximum allowed size of 5MB''\<rparr>
   \<and> validateFile \<lparr>file_name = ''README.MD'', file_type = ''text/plain'', file_size = 2 * 1024 * 1024\<rparr> = None
   \<and> validateFile \<lparr>file_name = ''README.MD'', file_type = ''text/plain'', file_size = 2 * 1024 * 1024 + 1\<rparr> =
        Some \<lparr>field = ''size'', message = ''File size exceeds maximum allowed size of 2MB''\<rparr>
   \<and> validateFile \<lparr>file_name = ''README.MD'', file_type = ''application/octet-stream'',
                    file_size = 2 * 1024 * 1024\<rparr> = None
   \<and> validateFile \<lparr>file_name = ''README.MD'', file_type = ''application/octet-stream'',
                    file_size = 2 * 1024 * 1024 + 1\<rparr> =
        Some \<lparr>field = ''size'',
              message = ''File size exceeds maximum allowed size of 2MB for text files''\<rparr>"
  using validateFile_size_boundary [of "''image/png''" "''README.MD''"]
    validateFile_size_boundary [of "''text/plain''" "''README.MD''"]
  by (simp add: README_MD_extension)

lemma validateFile_field:
  "validateFile f = Some e \<Longrightarrow> field e = ''type'' \<or> field e = ''size''"
  by (auto simp: validateFile_def Let_def split: if_splits option.splits)

lemma POST_try_not_binary:
  "POST_try env \<noteq> Inr (ErrorResponse ''File appears to be binary, not text'' ''content'' 400)"
proof
  assume a: "POST_try env = Inr (ErrorResponse ''File appears to be binary, not text'' ''content'' 400)"
  then show False
    by (auto simp: POST_try_def isValidTextContent_def Let_def
        split: sum.splits option.splits if_splits dest: validateFile_field)
qed

text \<open>
  Claim C10. \<open>isValidTextContent\<close> is true of every buffer, so the upload handler never
  answers 400 "File appears to be binary, not text": whatever the bytes of an
  application/octet-stream upload with an md, markdown or txt extension, the content check
  passes.
\<close>

theorem binary_rejection_unreachable:
  "isValidTextContent buffer = True \<and>
   POST env \<noteq> ErrorResponse ''File appears to be binary, not text'' ''content'' 400"
  using POST_try_not_binary [of env]
  by (auto simp: POST_def isValidTextContent_def split: sum.splits exn.splits)

section \<open>Properties of the memory hydration\<close>

lemma array_map_items:
  "array_map (convert_item fw) (map Item msgs)
     = Inr (map (messageResponseToBaseMessage (fw_stringify fw)) msgs)"
  by (induction msgs) simp_all



lemma role_converted:
  "msg_type m \<in> {human, ai, tool} \<Longrightarrow> role (messageResponseToBaseMessage st m) = msg_type m"
  by (auto simp: messageResponseToBaseMessage_def)

lemma text_converted:
  "data_content (msg_data m) = ContentString c \<Longrightarrow>
   ContentString (text_content (messageResponseToBaseMessage st m)) = data_content (msg_data m)"
  by (simp add: messageResponseToBaseMessage_def normalizeContent_def)

lemma hydrate_converted:
  assumes "h \<noteq> []" and "array_map (convert_item fw) h = Inr messages"
  shows "saver_after (hydrateMemoryFromHistory saver fw clk s tid (Some h))
           = fst (put saver s tid (new_checkpoint clk messages))"
    and "put_calls (hydrateMemoryFromHistory saver fw clk s tid (Some h))
           = [(tid, new_checkpoint clk messages)]"
  using assms
  by (cases "put saver s tid (new_checkpoint clk messages)";
      auto simp: hydrateMemoryFromHistory_def hydrate_try_def Let_def new_checkpoint_def
        split: option.splits)+

lemma hydrate_items:
  assumes "msgs \<noteq> []"
  shows "saver_after (hydrateMemoryFromHistory saver fw clk s tid (Some (map Item msgs)))
           = fst (put saver s tid (hydrated_checkpoint fw clk msgs))"
    and "put_calls (hydrateMemoryFromHistory saver fw clk s tid (Some (map Item msgs)))
           = [(tid, hydrated_checkpoint fw clk msgs)]"
  using assms hydrate_converted [OF _ array_map_items, of msgs saver fw clk s tid]
  by (simp_all add: hydrated_checkpoint_def)



text \<open>
  Claim C1. For a non-empty history of human, ai and tool messages with string content,
  \<open>hydrateMemoryFromHistory\<close> followed by \<open>getHistory\<close> on the same store and thread id
  returns as many messages as were supplied, with the same roles (human as HumanMessage,
  ai as AIMessage, tool as ToolMessage) and the same text, in order. The store is any one
  whose \<open>get\<close> returns the checkpoint last \<open>put\<close> for the thread.
\<close>

theorem hydrate_getHistory_roundtrip:
  assumes nonempty: "msgs \<noteq> []"
    and roles: "\<forall>m \<in> set msgs. msg_type m \<in> {human, ai, tool}"
    and strings: "\<forall>m \<in> set msgs. \<exists>c. data_content (msg_data m) = ContentString c"
    and store: "\<forall>cp. get saver (fst (put saver s tid cp)) tid = Inr (Some cp)"
  shows "let s' = saver_after (hydrateMemoryFromHistory saver st clk s tid (Some (map Item msgs)));
             result = getHistory saver s' tid
         in length result = length msgs \<and>
            map role result = map msg_type msgs \<and>
            map (\<lambda>b. ContentString (text_content b)) result
              = map (\<lambda>m. data_content (msg_data m)) msgs"
proof -
  have result: "getHistory saver (fst (put saver s tid (hydrated_checkpoint st clk msgs))) tid
                = map (messageResponseToBaseMessage (fw_stringify st)) msgs"
    using store by (simp add: getHistory_def hydrated_checkpoint_def new_checkpoint_def)
  have r: "map role (map (messageResponseToBaseMessage (fw_stringify st)) msgs)
             = map msg_type msgs"
    using roles by (simp add: role_converted)
  have t: "map (\<lambda>b. ContentString (text_content b))
             (map (messageResponseToBaseMessage (fw_stringify st)) msgs)
             = map (\<lambda>m. data_content (msg_data m)) msgs"
    using strings by (auto simp: text_converted)
  show ?thesis
    unfolding Let_def hydrate_items(1) [OF nonempty] result using r t by simp
qed

text \<open>
  The round trip on the example conversation, in a fresh in-memory store.
\<close>

theorem hydrate_getHistory_roundtrip_witness:
  "let result = getHistory memory_saver
         (saver_after (hydrateMemoryFromHistory memory_saver example_framework example_clock
            createMemorySaver ''T1'' (Some (map Item example_history)))) ''T1''
   in length result = 3 \<and> map role result = [human, ai, tool] \<and>
      map (\<lambda>b. ContentString (text_content b)) result
        = [ContentString ''weather?'', ContentString [], ContentString ''sunny'']"
proof -
  have nonempty: "example_history \<noteq> []"
    by (simp add: example_history_def)
  have roles: "\<forall>m \<in> set example_history. msg_type m \<in> {human, ai, tool}"
    by (simp add: example_history_def)
  have strings: "\<forall>m \<in> set example_history. \<exists>c. data_content (msg_data m) = ContentString c"
    by (simp add: example_history_def)
  have store: "\<forall>cp. get memory_saver (fst (put memory_saver createMemorySaver ''T1'' cp)) ''T1''
                 = Inr (Some cp)"
    by (simp add: memory_saver_def)
  have expected: "length example_history = 3 \<and> map msg_type example_history = [human, ai, tool] \<and>
        map (\<lambda>m. data_content (msg_data m)) example_history
          = [ContentString ''weather?'', ContentString [], ContentString ''sunny'']"
    by (simp add: example_history_def)
  show ?thesis
    using hydrate_getHistory_roundtrip
        [OF nonempty roles strings store, of example_framework example_clock]
      expected
    by (simp add: Let_def)
qed







section \<open>Properties of the streaming service\<close>

text \<open>
  Claim C3. When \<open>opts.allowTool\<close> is present the turn input of \<open>streamResponse\<close> is a
  resume command carrying \<open>{action, data}\<close>, with action \<open>continue\<close> for \<open>allow\<close> and
  \<open>update\<close> otherwise; when it is absent (or \<open>opts\<close> is) the input is a single fresh
  HumanMessage containing the user text.
\<close>

theorem streamResponse_inputs_by_allowTool:
  "(allowTool opts = Some allow \<longrightarrow>
      streamResponse_inputs (Some opts) userText
        = Command \<lparr>action = ''continue'', resume_data = JObj []\<rparr>)
   \<and> (allowTool opts = Some deny \<longrightarrow>
      streamResponse_inputs (Some opts) userText
        = Command \<lparr>action = ''update'', resume_data = JObj []\<rparr>)
   \<and> (allowTool opts = None \<longrightarrow>
      streamResponse_inputs (Some opts) userText
        = StateInput [HumanMessage \<lparr>hm_content = userText, hm_id = None\<rparr>])
   \<and> streamResponse_inputs None userText
        = StateInput [HumanMessage \<lparr>hm_content = userText, hm_id = None\<rparr>]"
  by (simp add: streamResponse_inputs_def)

text \<open>
  The three cases at concrete options.
\<close>

theorem streamResponse_inputs_by_allowTool_witness:
  "streamResponse_inputs
     (Some \<lparr>opt_model = None, opt_tools = None, allowTool = Some allow, approveAllTools = None\<rparr>) []
     = Command \<lparr>action = ''continue'', resume_data = JObj []\<rparr>
   \<and> streamResponse_inputs
     (Some \<lparr>opt_model = None, opt_tools = None, allowTool = Some deny, approveAllTools = None\<rparr>) []
     = Command \<lparr>action = ''update'', resume_data = JObj []\<rparr>
   \<and> streamResponse_inputs
     (Some \<lparr>opt_model = Some ''gpt-4o-mini'', opt_tools = None, allowTool = None,
            approveAllTools = Some False\<rparr>) ''hello''
     = StateInput [HumanMessage \<lparr>hm_content = ''hello'', hm_id = None\<rparr>]"
  using streamResponse_inputs_by_allowTool
      [of "\<lparr>opt_model = None, opt_tools = None, allowTool = Some allow, approveAllTools = None\<rparr>" "[]"]
    streamResponse_inputs_by_allowTool
      [of "\<lparr>opt_model = None, opt_tools = None, allowTool = Some deny, approveAllTools = None\<rparr>" "[]"]
    streamResponse_inputs_by_allowTool
      [of "\<lparr>opt_model = Some ''gpt-4o-mini'', opt_tools = None, allowTool = None,
            approveAllTools = Some False\<rparr>" "''hello''"]
  by simp

text \<open>
  Claim C2 says that resuming with \<open>allowTool=deny\<close> takes the feedback branch: a denial
  tool result is recorded and the graph returns to \<open>agent\<close> without executing the tool.
  The code does otherwise: for \<open>deny\<close>, \<open>streamResponse\<close> resumes with the action \<open>update\<close>,
  which the approval gate answers by going to \<open>tools\<close> with a modified tool call; it never
  sends \<open>feedback\<close>.
\<close>

theorem deny_resumes_into_tools:
  "streamResponse_inputs (Some (opts\<lparr>allowTool := Some deny\<rparr>)) userText
     = Command \<lparr>action = ''update'', resume_data = JObj []\<rparr>
   \<and> resume_turn (Some (opts\<lparr>allowTool := Some deny\<rparr>)) userText
     = Some (tools, ModifiedToolCall (JObj []))
   \<and> resume_turn (Some (opts\<lparr>allowTool := Some deny\<rparr>)) userText
     \<noteq> Some (agent, DenialToolResult d)"
  by (simp add: resume_turn_def streamResponse_inputs_def tool_approval_resume_def)

lemma all_dropWhile:
  "(\<forall>x \<in> set (dropWhile P xs). P x) = (\<forall>x \<in> set xs. P x)"
  by (induction xs) auto

lemma trim_empty: "(trim s = []) = list_all is_whitespace s"
  by (simp add: trim_def dropWhile_eq_Nil_conv all_dropWhile list_all_iff)

text \<open>
  Claim C6, as amended. For an AI message whose content encodes no pending tool call,
  \<open>processAIMessage\<close> extracts the text (the content when it is a plain string, the joined
  text of the blocks when it is an array) and emits an ai delta with that text, unless the
  text is empty or consists of white space only, in which case it emits nothing.
\<close>

theorem processAIMessage_text_delta:
  assumes "\<not> hasToolCall m"
  shows "(chunk_content m = Plain s \<longrightarrow> extract_text m = s)
     \<and> (chunk_content m = Blocks items \<longrightarrow> extract_text m = concat (map block_text items))
     \<and> processAIMessage now m =
         (if list_all is_whitespace (extract_text m) then None
          else Some \<lparr>msg_type = ai,
                     msg_data = \<lparr>data_id = id_or_now now (chunk_id m),
                                 data_content = ContentString (extract_text m),
                                 tool_calls = None, additional_kwargs = None,
                                 response_metadata = None\<rparr>\<rparr>)
     \<and> (extract_text m = [] \<longrightarrow> processAIMessage now m = None)"
  using assms by (simp add: processAIMessage_def extract_text_def trim_empty Let_def)

lemma space_is_whitespace: "is_whitespace CHR '' ''" by code_simp
lemma letters_not_whitespace: "\<not> is_whitespace CHR ''H''" by code_simp

text \<open>
  Claim C6 as stated fails: the text of this message is a single space, which is not
  empty, and no delta is emitted.
\<close>

theorem blank_text_counterexample:
  "\<not> hasToolCall example_blank_chunk \<and> extract_text example_blank_chunk = '' '' \<and>
   extract_text example_blank_chunk \<noteq> [] \<and> processAIMessage 0 example_blank_chunk = None"
  by (simp add: example_blank_chunk_def hasToolCall_def extract_text_def processAIMessage_def
      trim_def space_is_whitespace)

text \<open>
  A message made of text blocks is emitted with the joined text.
\<close>

theorem processAIMessage_text_delta_witness:
  "processAIMessage 0 example_blocks_chunk =
     Some \<lparr>msg_type = ai,
           msg_data = \<lparr>data_id = ''run-2'', data_content = ContentString ''Hello, world'',
                       tool_calls = None, additional_kwargs = None, response_metadata = None\<rparr>\<rparr>"
proof -
  have no_call: "\<not> hasToolCall example_blocks_chunk"
    by (simp add: example_blocks_chunk_def hasToolCall_def)
  have extracted: "extract_text example_blocks_chunk = ''Hello, world''"
    by (simp add: example_blocks_chunk_def extract_text_def)
  have visible: "\<not> list_all is_whitespace ''Hello, world''"
    by (simp add: letters_not_whitespace)
  have ident: "id_or_now 0 (chunk_id example_blocks_chunk) = ''run-2''"
    by (simp add: example_blocks_chunk_def id_or_now_def)
  show ?thesis
    using processAIMessage_text_delta [OF no_call, of "[]" "[]" 0] visible
    unfolding extracted ident by simp
qed

section \<open>Properties of the tool registry loader\<close>

lemma server_step_disabled:
  "property server ''enabled'' = Some (JBool False) \<Longrightarrow> server_step server configs = Inr configs"
  by (cases server) (auto simp: server_step_def)

lemma for_servers_filter:
  "for_servers (filter (\<lambda>s. property s ''enabled'' \<noteq> Some (JBool False)) servers) configs
     = for_servers servers configs"
  by (induction servers arbitrary: configs) (auto simp: server_step_disabled split: sum.splits)

lemma keys_set_property:
  "k' \<in> fst ` set (set_property k v kvs) \<Longrightarrow> k' = k \<or> k' \<in> fst ` set kvs"
  by (induction kvs) (force split: if_splits)+

lemma keys_assign: "fst ` set (assign k v kvs) \<subseteq> insert k (fst ` set kvs)"
  using keys_set_property [of _ k v kvs] by (auto simp: assign_def)

lemma server_step_keys:
  assumes "server_step server configs = Inr configs'" and "k \<in> fst ` set configs'"
  shows "k \<in> fst ` set configs \<or>
         (truthy (property server ''enabled'') \<and> property_key (property server ''name'') = k)"
proof (cases "configs' = configs")
  case True
  with assms show ?thesis by simp
next
  case False
  with assms(1) have en: "truthy (property server ''enabled'')"
    by (auto simp: server_step_def split: if_splits)
  from False assms(1) obtain c where "configs' = assign (property_key (property server ''name'')) c configs"
    by (auto simp: server_step_def split: if_splits)
  with assms(2) keys_assign [of "property_key (property server ''name'')" c configs]
  have "k = property_key (property server ''name'') \<or> k \<in> fst ` set configs" by auto
  with en show ?thesis by auto
qed

lemma for_servers_keys:
  "for_servers servers configs = Inr result \<Longrightarrow> k \<in> fst ` set result \<Longrightarrow>
   k \<in> fst ` set configs \<or>
   (\<exists>server \<in> set servers.
      truthy (property server ''enabled'') \<and> property_key (property server ''name'') = k)"
proof (induction servers arbitrary: configs)
  case Nil
  then show ?case by simp
next
  case (Cons server rest)
  from Cons.prems(1) obtain configs' where step: "server_step server configs = Inr configs'"
    and loop: "for_servers rest configs' = Inr result"
    by (auto split: sum.splits)
  from Cons.IH [OF loop Cons.prems(2)] show ?case
  proof
    assume "k \<in> fst ` set configs'"
    with server_step_keys [OF step] show ?thesis by auto
  next
    assume "\<exists>server \<in> set rest.
      truthy (property server ''enabled'') \<and> property_key (property server ''name'') = k"
    then show ?thesis by auto
  qed
qed

lemma getMCPServerConfigs_loaded:
  assumes "existsSync fs" and "readFileSync fs = Inr fileContent"
    and "JSON_parse fileContent = Inr config"
    and "property config ''servers'' = Some (JArr servers)"
  shows "getMCPServerConfigs fs JSON_parse =
           (case for_servers servers [] of Inl e \<Rightarrow> [] | Inr configs \<Rightarrow> configs)"
proof -
  from assms(4) have "config \<noteq> JNull" by auto
  with assms show ?thesis
    by (simp add: getMCPServerConfigs_def getMCPServerConfigs_try_def)
qed

lemma getMCPServerConfigs_empty:
  shows "\<not> existsSync fs \<Longrightarrow> getMCPServerConfigs fs JSON_parse = []"
    and "readFileSync fs = Inl e \<Longrightarrow> getMCPServerConfigs fs JSON_parse = []"
    and "readFileSync fs = Inr fileContent \<Longrightarrow> JSON_parse fileContent = Inl e
           \<Longrightarrow> getMCPServerConfigs fs JSON_parse = []"
    and "readFileSync fs = Inr fileContent \<Longrightarrow> JSON_parse fileContent = Inr config
           \<Longrightarrow> \<not> isArray (property config ''servers'')
           \<Longrightarrow> getMCPServerConfigs fs JSON_parse = []"
  by (simp_all add: getMCPServerConfigs_def getMCPServerConfigs_try_def)

lemma getMCPTools_empty:
  "getMCPServerConfigs fs JSON_parse = [] \<Longrightarrow> getMCPTools lib fs JSON_parse = []"
  by (simp add: getMCPTools_def createMCPClient_def)

text \<open>
  Claim C8. \<open>getMCPServerConfigs\<close> leaves every server whose \<open>enabled\<close> flag is false out
  of the returned config: the result is the one computed from the other servers alone, and
  each of its keys is the name of a server whose flag is set. When the configuration file
  is absent, unreadable, unparsable or without a \<open>servers\<close> array, it returns the empty
  config instead of throwing, and then \<open>getMCPTools\<close> returns no tools.
\<close>

theorem getMCPServerConfigs_enabled_only:
  "(\<not> existsSync fs \<longrightarrow> getMCPServerConfigs fs JSON_parse = [])
   \<and> (readFileSync fs = Inl e \<longrightarrow> getMCPServerConfigs fs JSON_parse = [])
   \<and> (readFileSync fs = Inr fileContent \<and> JSON_parse fileContent = Inl e
        \<longrightarrow> getMCPServerConfigs fs JSON_parse = [])
   \<and> (readFileSync fs = Inr fileContent \<and> JSON_parse fileContent = Inr config
        \<and> \<not> isArray (property config ''servers'')
        \<longrightarrow> getMCPServerConfigs fs JSON_parse = [])
   \<and> (getMCPServerConfigs fs JSON_parse = [] \<longrightarrow> getMCPTools lib fs JSON_parse = [])
   \<and> (existsSync fs \<and> readFileSync fs = Inr fileContent \<and> JSON_parse fileContent = Inr config
        \<and> property config ''servers'' = Some (JArr servers)
        \<longrightarrow> getMCPServerConfigs fs JSON_parse =
              (case for_servers
                      (filter (\<lambda>server. property server ''enabled'' \<noteq> Some (JBool False)) servers) []
               of Inl e \<Rightarrow> [] | Inr configs \<Rightarrow> configs)
            \<and> (\<forall>k \<in> fst ` set (getMCPServerConfigs fs JSON_parse).
                  \<exists>server \<in> set servers.
                    truthy (property server ''enabled'')
                    \<and> property_key (property server ''name'') = k))"
proof -
  have loaded: "getMCPServerConfigs fs JSON_parse =
              (case for_servers
                      (filter (\<lambda>server. property server ''enabled'' \<noteq> Some (JBool False)) servers) []
               of Inl e \<Rightarrow> [] | Inr configs \<Rightarrow> configs)
            \<and> (\<forall>k \<in> fst ` set (getMCPServerConfigs fs JSON_parse).
                  \<exists>server \<in> set servers.
                    truthy (property server ''enabled'')
                    \<and> property_key (property server ''name'') = k)"
    if a: "existsSync fs" "readFileSync fs = Inr fileContent" "JSON_parse fileContent = Inr config"
      "property config ''servers'' = Some (JArr servers)"
  proof -
    note eq = getMCPServerConfigs_loaded [where JSON_parse = JSON_parse, OF a]
    have keys: "\<exists>server \<in> set servers.
                    truthy (property server ''enabled'')
                    \<and> property_key (property server ''name'') = k"
      if "k \<in> fst ` set (getMCPServerConfigs fs JSON_parse)" for k
    proof (cases "for_servers servers []")
      case (Inl e)
      with eq that show ?thesis by simp
    next
      case (Inr result)
      with eq that have "k \<in> fst ` set result" by simp
      from for_servers_keys [OF Inr this] show ?thesis by simp
    qed
    from eq keys show ?thesis by (simp add: for_servers_filter)
  qed
  show ?thesis
    using getMCPServerConfigs_empty [where fs = fs and JSON_parse = JSON_parse]
      getMCPTools_empty [where fs = fs and JSON_parse = JSON_parse and lib = lib] loaded
    by blast
qed

text \<open>
  The example configuration loads its enabled server only; a missing, unparsable, invalid
  or unreadable file gives no tools.
\<close>

theorem getMCPServerConfigs_enabled_only_witness:
  "getMCPServerConfigs \<lparr>existsSync = True, readFileSync = Inr ''CONFIG''\<rparr> example_parse
     = [(''context7'',
         Http \<lparr>http_url = JStr ''https://mcp.context7.ai'', http_headers = Some (JObj [])\<rparr>)]
   \<and> getMCPTools example_library \<lparr>existsSync = False, readFileSync = Inr ''CONFIG''\<rparr> example_parse = []
   \<and> getMCPTools example_library \<lparr>existsSync = True, readFileSync = Inr ''{servers''\<rparr> example_parse = []
   \<and> getMCPTools example_library \<lparr>existsSync = True, readFileSync = Inr ''{}''\<rparr> example_parse = []
   \<and> getMCPTools example_library
         \<lparr>existsSync = True, readFileSync = Inl (Error ''Error'' ''EACCES'')\<rparr> example_parse = []"
proof -
  let ?servers = "elements (property example_config ''servers'')"
  have servers: "property example_config ''servers'' = Some (JArr ?servers)"
    by (simp add: example_config_def)
  have kept: "filter (\<lambda>server. property server ''enabled'' \<noteq> Some (JBool False)) ?servers
                = [?servers ! 0]"
    by (simp add: example_config_def)
  have step: "for_servers [?servers ! 0] [] =
     Inr [(''context7'',
           Http \<lparr>http_url = JStr ''https://mcp.context7.ai'', http_headers = Some (JObj [])\<rparr>)]"
    by (simp add: example_config_def server_step_def property_key_def assign_def)
  have parsed: "example_parse ''CONFIG'' = Inr example_config"
    "example_parse ''{servers'' = Inl (Error ''SyntaxError'' ''Unexpected token'')"
    "example_parse ''{}'' = Inr (JObj [])"
    by (simp_all add: example_parse_def)
  have loaded: "getMCPServerConfigs \<lparr>existsSync = True, readFileSync = Inr ''CONFIG''\<rparr> example_parse
     = [(''context7'',
         Http \<lparr>http_url = JStr ''https://mcp.context7.ai'', http_headers = Some (JObj [])\<rparr>)]"
    using getMCPServerConfigs_enabled_only
      [where fs = "\<lparr>existsSync = True, readFileSync = Inr ''CONFIG''\<rparr>"
         and JSON_parse = example_parse and fileContent = "''CONFIG''"
         and config = example_config and servers = ?servers and lib = example_library]
      servers parsed(1)
    unfolding kept step by simp
  have absent: "getMCPTools example_library \<lparr>existsSync = False, readFileSync = Inr ''CONFIG''\<rparr>
                  example_parse = []"
    using getMCPServerConfigs_enabled_only
      [where fs = "\<lparr>existsSync = False, readFileSync = Inr ''CONFIG''\<rparr>"
         and JSON_parse = example_parse and lib = example_library]
    by simp
  have unparsable: "getMCPTools example_library \<lparr>existsSync = True, readFileSync = Inr ''{servers''\<rparr>
                  example_parse = []"
    using getMCPServerConfigs_enabled_only
      [where fs = "\<lparr>existsSync = True, readFileSync = Inr ''{servers''\<rparr>"
         and JSON_parse = example_parse and lib = example_library
         and fileContent = "''{servers''" and e = "Error ''SyntaxError'' ''Unexpected token''"]
      parsed(2)
    by simp
  have invalid: "getMCPTools example_library \<lparr>existsSync = True, readFileSync = Inr ''{}''\<rparr>
                  example_parse = []"
    using getMCPServerConfigs_enabled_only
      [where fs = "\<lparr>existsSync = True, readFileSync = Inr ''{}''\<rparr>"
         and JSON_parse = example_parse and lib = example_library
         and fileContent = "''{}''" and config = "JObj []"]
      parsed(3)
    by simp
  have unreadable: "getMCPTools example_library
         \<lparr>existsSync = True, readFileSync = Inl (Error ''Error'' ''EACCES'')\<rparr> example_parse = []"
    using getMCPServerConfigs_enabled_only
      [where fs = "\<lparr>existsSync = True, readFileSync = Inl (Error ''Error'' ''EACCES'')\<rparr>"
         and JSON_parse = example_parse and lib = example_library
         and e = "Error ''Error'' ''EACCES''"]
    by simp
  from loaded absent unparsable invalid unreadable show ?thesis by simp
qed

section \<open>Properties of the local persistence store\<close>

lemma read_record_missing:
  "localStorage b = Inr getItem \<Longrightarrow> getItem key = None
     \<Longrightarrow> read_record b JSON_parse key = Inr (JArr [])"
  by (simp add: read_record_def)

lemma read_record_corrupt:
  "localStorage b = Inr getItem \<Longrightarrow> getItem key = Some data \<Longrightarrow> JSON_parse data = Inl e
     \<Longrightarrow> read_record b JSON_parse key = Inr (JArr []) \<or> read_record b JSON_parse key = Inl e"
  by (simp add: read_record_def)

text \<open>
  Claim C9. A missing or unparsable stored value degrades to the empty list instead of
  throwing: \<open>getThreads\<close> returns \<open>[]\<close>, and \<open>getMessages\<close> returns \<open>[]\<close> for every thread
  id, when the value under the key is absent or fails to parse (and also when the store
  itself cannot be read).
\<close>

theorem missing_or_corrupt_records_are_empty:
  "(localStorage b = Inr getItem \<and> getItem THREADS_KEY = None
      \<longrightarrow> getThreads b JSON_parse = JArr [])
   \<and> (localStorage b = Inr getItem \<and> getItem THREADS_KEY = Some data \<and> JSON_parse data = Inl e
      \<longrightarrow> getThreads b JSON_parse = JArr [])
   \<and> (localStorage b = Inr getItem \<and> getItem (MESSAGES_KEY_PREFIX @ threadId) = None
      \<longrightarrow> getMessages b JSON_parse threadId = JArr [])
   \<and> (localStorage b = Inr getItem \<and> getItem (MESSAGES_KEY_PREFIX @ threadId) = Some data
        \<and> JSON_parse data = Inl e
      \<longrightarrow> getMessages b JSON_parse threadId = JArr [])
   \<and> (localStorage b = Inl e \<longrightarrow>
        getThreads b JSON_parse = JArr [] \<and> getMessages b JSON_parse threadId = JArr [])"
proof -
  have threads: "getThreads b JSON_parse = JArr []"
    if "read_record b JSON_parse THREADS_KEY = Inr (JArr [])
        \<or> read_record b JSON_parse THREADS_KEY = Inl e"
    using that by (auto simp: getThreads_def)
  have messages: "getMessages b JSON_parse threadId = JArr []"
    if "read_record b JSON_parse (MESSAGES_KEY_PREFIX @ threadId) = Inr (JArr [])
        \<or> read_record b JSON_parse (MESSAGES_KEY_PREFIX @ threadId) = Inl e"
    using that by (auto simp: getMessages_def)
  have denied: "read_record b JSON_parse key = Inl e" if "localStorage b = Inl e" for key
    using that by (simp add: read_record_def)
  show ?thesis
    using threads messages denied
      read_record_missing [where b = b and getItem = getItem and JSON_parse = JSON_parse]
      read_record_corrupt [where b = b and getItem = getItem and JSON_parse = JSON_parse
        and data = data and e = e]
    by blast
qed

text \<open>
  A browser with no thread list, no messages for T1 and a corrupt record for T2.
\<close>

theorem missing_or_corrupt_records_are_empty_witness:
  "getThreads example_browser example_parse = JArr []
   \<and> getMessages example_browser example_parse ''T1'' = JArr []
   \<and> getMessages example_browser example_parse ''T2'' = JArr []"
proof -
  have store: "localStorage example_browser
          = Inr (\<lambda>key. if key = ''stackpath_messages_T2'' then Some ''[{broken'' else None)"
    by (simp add: example_browser_def)
  have corrupt: "example_parse ''[{broken'' = Inl (Error ''SyntaxError'' ''Unexpected token'')"
    by (simp add: example_parse_def)
  show ?thesis
    using missing_or_corrupt_records_are_empty
        [where b = example_browser and JSON_parse = example_parse and threadId = "''T1''"
           and getItem = "\<lambda>key. if key = ''stackpath_messages_T2'' then Some ''[{broken'' else None"]
      missing_or_corrupt_records_are_empty
        [where b = example_browser and JSON_parse = example_parse and threadId = "''T2''"
           and getItem = "\<lambda>key. if key = ''stackpath_messages_T2'' then Some ''[{broken'' else None"
           and data = "''[{broken''" and e = "Error ''SyntaxError'' ''Unexpected token''"]
      store corrupt
    by (simp add: THREADS_KEY_def MESSAGES_KEY_PREFIX_def)
qed

end
